theory Spec2Isabelle
  imports Main "HOL-Library.Word"
begin

section \<open>The AiContribFHE contract\<close>

text \<open>
  A shallow embedding of the Solidity contract \<^verbatim>\<open>AiContribFHE\<close>. Storage is a record
  that every public function takes and returns updated. A Solidity mapping has no notion of
  an absent key: every key reads as the zero value until it is written, so each mapping is a
  total function. A \<^verbatim>\<open>require\<close> that fails, a reverting library call, a failing
  \<^verbatim>\<open>abi.decode\<close> and a checked-arithmetic or index panic are the \<open>Revert\<close> outcome.
\<close>

subsection \<open>Data model\<close>

type_synonym uint256 = "256 word"
type_synonym uint32 = "32 word"
type_synonym bytes = "8 word list"

text \<open>\<^verbatim>\<open>struct EncryptedModelUpdate\<close>; the handle type \<^verbatim>\<open>euint32\<close> is \<open>'c\<close>.\<close>

record 'c EncryptedModelUpdate =
  id' :: uint256
  encryptedWeights :: 'c
  encryptedMetrics :: 'c
  timestamp :: uint256

text \<open>\<^verbatim>\<open>struct DecryptedContribution\<close>.\<close>

record DecryptedContribution =
  participantId :: uint256
  shapleyValue :: uint32
  isRevealed :: bool

text \<open>
  The storage the contract's behaviour depends on. The first six fields are the storage
  variables of the contract, in declaration order. The imported \<^verbatim>\<open>FHE\<close> library keeps
  its decryption requests in the contract's own storage: \<open>counterRequest\<close> is the next
  request id and \<open>requestedHandles\<close> the handles saved under each request id (the empty
  list where none are saved). \<open>aclAllowed\<close> is the part of the access-control list that
  concerns this contract: the handles it has been granted lasting access to.
\<close>

record 'c state =
  updateCount :: uint256
  encryptedUpdates :: "uint256 \<Rightarrow> 'c EncryptedModelUpdate"
  decryptedContributions :: "uint256 \<Rightarrow> DecryptedContribution"
  encryptedContributionTotals :: "uint256 \<Rightarrow> 'c"
  participantList :: "uint256 list"
  requestToUpdateId :: "uint256 \<Rightarrow> uint256"
  counterRequest :: uint256
  requestedHandles :: "uint256 \<Rightarrow> 'c list"
  aclAllowed :: "'c set"

text \<open>
  The pure parts of the imported library and the ABI decoder are parameters of the model:
  the handle a never-written storage slot holds, \<^verbatim>\<open>FHE.isInitialized\<close>, the handle
  \<^verbatim>\<open>FHE.asEuint32\<close> yields for a plain value, the handle \<^verbatim>\<open>FHE.add\<close> yields for two
  operands, whether the signatures of a decryption proof are valid for the handles of a
  request and the cleartexts, and the two decoders \<^verbatim>\<open>abi.decode(_, (uint32[]))\<close> and
  \<^verbatim>\<open>abi.decode(_, (uint32))\<close>, which revert on malformed input (\<open>None\<close>).
\<close>

record 'c fhe =
  zeroHandle :: 'c
  isInitialized :: "'c \<Rightarrow> bool"
  asEuint32 :: "uint32 \<Rightarrow> 'c"
  fhe_add :: "'c \<Rightarrow> 'c \<Rightarrow> 'c"
  verifySignatures :: "'c list \<Rightarrow> bytes \<Rightarrow> bytes \<Rightarrow> bool"
  decodeUint32Array :: "bytes \<Rightarrow> uint32 list option"
  decodeUint32 :: "bytes \<Rightarrow> uint32 option"

text \<open>
  The reasons a call reverts.
  \<^item> \<open>AlreadyRevealed\<close>: \<^verbatim>\<open>require(..., "Already decrypted")\<close>.
  \<^item> \<open>UnknownRequest\<close>: the request id is not known, either to the contract
    (\<^verbatim>\<open>require(..., "Invalid request")\<close>) or to the library, which has no handles saved
    for it (\<^verbatim>\<open>NoHandleFoundForRequestID\<close>).
  \<^item> \<open>NotFound\<close>: \<^verbatim>\<open>require(..., "Update not found")\<close>.
  \<^item> \<open>VerificationFailed\<close>: the library rejects the decryption proof.
  \<^item> \<open>AccessDenied\<close>: the access-control list refuses a handle the contract has no
    access to.
  \<^item> \<open>HandlesAlreadySaved\<close>: the library already holds handles for the new request id.
  \<^item> \<open>DecodeError\<close>: \<^verbatim>\<open>abi.decode\<close> fails.
  \<^item> \<open>Panic\<close>: the compiler's checked arithmetic or array index check fails.
\<close>

datatype error =
    AlreadyRevealed
  | UnknownRequest
  | NotFound
  | VerificationFailed
  | AccessDenied
  | HandlesAlreadySaved
  | DecodeError
  | Panic

datatype event =
    UpdateSubmitted uint256 uint256
  | DecryptionRequested uint256
  | ContributionDecrypted uint256

text \<open>The callback selector handed to \<^verbatim>\<open>FHE.requestDecryption\<close>.\<close>

datatype selector = DecryptContributionSelector | DecryptTotalContributionSelector

text \<open>
  What a call does besides writing storage: the events the contract emits and the
  decryption requests it sends to the oracle (the handles, the callback selector and the
  request id). Events emitted by the library itself are left out.
\<close>

datatype 'c effect =
    Emit event
  | RequestDecryption "'c list" selector uint256

text \<open>
  The outcome of running a function body: \<open>Revert\<close> carries the reason and the storage as
  it stands at the point of the revert (before the platform rolls it back); \<open>Success\<close>
  carries the storage at the end, the effects in order and the returned values.
\<close>

datatype 'c outcome =
    Revert error "'c state"
  | Success "'c state" "'c effect list" "uint256 list"

text \<open>
  The storage of a freshly deployed contract: every slot is zero, and the contract has
  been granted access to no handle.
\<close>

definition initial_state :: "'c fhe \<Rightarrow> 'c state" where
  "initial_state env =
     \<lparr> updateCount = 0,
       encryptedUpdates = (\<lambda>_. \<lparr> id' = 0, encryptedWeights = zeroHandle env,
                                  encryptedMetrics = zeroHandle env, timestamp = 0 \<rparr>),
       decryptedContributions = (\<lambda>_. \<lparr> participantId = 0, shapleyValue = 0,
                                        isRevealed = False \<rparr>),
       encryptedContributionTotals = (\<lambda>_. zeroHandle env),
       participantList = [],
       requestToUpdateId = (\<lambda>_. 0),
       counterRequest = 0,
       requestedHandles = (\<lambda>_. []),
       aclAllowed = {} \<rparr>"

subsection \<open>The imported library\<close>

text \<open>
  The library is not part of the contract's source. The model follows what its functions
  do when the contract calls them.

  The access-control list allows the contract to use a handle when the contract was
  granted lasting access to it, or when the handle was produced for the contract earlier
  in the same transaction (\<open>transient\<close>: the results of \<^verbatim>\<open>FHE.asEuint32\<close> and
  \<^verbatim>\<open>FHE.add\<close>). Access of the second kind ends with the transaction. The contract never
  calls \<^verbatim>\<open>FHE.allowThis\<close> or \<^verbatim>\<open>FHE.allow\<close>, so it never gains lasting access by itself.
\<close>

definition isAllowed :: "'c set \<Rightarrow> 'c state \<Rightarrow> 'c \<Rightarrow> bool" where
  "isAllowed transient s h \<longleftrightarrow> h \<in> transient \<or> h \<in> aclAllowed s"

text \<open>
  \<^verbatim>\<open>FHE.requestDecryption\<close>: the request id is the library's counter; the access-control
  list must allow the contract every handle of the request; the handles are saved under
  the request id, which must not hold handles yet; the counter is incremented (checked).
  The contract always passes a non-empty list of handles.
  The result is the request id and the updated storage, or the reason of the revert and
  the storage at that point.
\<close>

definition FHE_requestDecryption ::
  "'c list \<Rightarrow> 'c set \<Rightarrow> 'c state \<Rightarrow> (error \<times> 'c state) + (uint256 \<times> 'c state)" where
  "FHE_requestDecryption ctsHandles transient s =
     (let requestID = counterRequest s in
      if \<not> list_all (isAllowed transient s) ctsHandles then Inl (AccessDenied, s)
      else if requestedHandles s requestID \<noteq> [] then Inl (HandlesAlreadySaved, s)
      else
        let s1 = s\<lparr> requestedHandles := (requestedHandles s)(requestID := ctsHandles) \<rparr> in
        if counterRequest s1 = - 1 then Inl (Panic, s1)
        else Inr (requestID, s1\<lparr> counterRequest := counterRequest s1 + 1 \<rparr>))"

text \<open>
  \<^verbatim>\<open>FHE.checkSignatures\<close>: loads the handles saved for the request id and reverts when
  there are none; then reverts unless the proof is valid for these handles and the
  cleartexts. \<open>None\<close> means that the check passed.
\<close>

definition FHE_checkSignatures ::
  "'c fhe \<Rightarrow> uint256 \<Rightarrow> bytes \<Rightarrow> bytes \<Rightarrow> 'c state \<Rightarrow> error option" where
  "FHE_checkSignatures env requestID cleartexts decryptionProof s =
     (let handlesList = requestedHandles s requestID in
      if handlesList = [] then Some UnknownRequest
      else if \<not> verifySignatures env handlesList cleartexts decryptionProof
      then Some VerificationFailed
      else None)"

text \<open>
  \<^verbatim>\<open>FHE.add\<close>: the access-control list must allow the contract both operands; \<open>None\<close>
  means that it refuses one. (The library replaces an uninitialized operand by an
  encryption of 0 first; the contract never passes one, since it initializes the total
  itself and trivial encryptions are initialized.)
\<close>

definition FHE_add :: "'c fhe \<Rightarrow> 'c set \<Rightarrow> 'c state \<Rightarrow> 'c \<Rightarrow> 'c \<Rightarrow> 'c option" where
  "FHE_add env transient s a b =
     (if isAllowed transient s a \<and> isAllowed transient s b then Some (fhe_add env a b)
      else None)"

subsection \<open>The public functions\<close>

text \<open>
  \<^verbatim>\<open>submitEncryptedUpdate\<close>. \<open>now\<close> is \<^verbatim>\<open>block.timestamp\<close>. The increment is checked
  (Solidity 0.8): it panics when the counter is at its maximum. The function declares no
  return value.
\<close>

definition submitEncryptedUpdate :: "uint256 \<Rightarrow> 'c \<Rightarrow> 'c \<Rightarrow> 'c state \<Rightarrow> 'c outcome" where
  "submitEncryptedUpdate now weights metrics s =
     (if updateCount s = - 1 then Revert Panic s
      else
        let s1 = s\<lparr> updateCount := updateCount s + 1 \<rparr>;
            newId = updateCount s1;
            s2 = s1\<lparr> encryptedUpdates := (encryptedUpdates s1)
                    (newId := \<lparr> id' = newId, encryptedWeights = weights,
                                encryptedMetrics = metrics, timestamp = now \<rparr>) \<rparr>;
            s3 = s2\<lparr> decryptedContributions := (decryptedContributions s2)
                    (newId := \<lparr> participantId = newId, shapleyValue = 0,
                                isRevealed = False \<rparr>) \<rparr>
        in Success s3 [Emit (UpdateSubmitted newId now)] [])"

text \<open>
  \<^verbatim>\<open>requestUpdateDecryption\<close>. The modifier \<^verbatim>\<open>onlyParticipant\<close> has an empty body. No
  handle has been produced in the transaction when the library is called.
\<close>

definition requestUpdateDecryption :: "uint256 \<Rightarrow> 'c state \<Rightarrow> 'c outcome" where
  "requestUpdateDecryption updateId s =
     (let update = encryptedUpdates s updateId in
      if isRevealed (decryptedContributions s updateId) then Revert AlreadyRevealed s
      else
        let ciphertexts = [encryptedWeights update, encryptedMetrics update] in
        case FHE_requestDecryption ciphertexts {} s of
          Inl (e, s') \<Rightarrow> Revert e s'
        | Inr (reqId, s1) \<Rightarrow>
            let s2 = s1\<lparr> requestToUpdateId := (requestToUpdateId s1)(reqId := updateId) \<rparr>
            in Success s2
                 [RequestDecryption ciphertexts DecryptContributionSelector reqId,
                  Emit (DecryptionRequested updateId)] [])"

text \<open>
  \<^verbatim>\<open>decryptContribution\<close>, the callback of the individual lane. \<^verbatim>\<open>results[0]\<close>
  panics on an empty array. \<open>transient\<close> collects the handles the library produces for the
  contract in this transaction.
\<close>

definition decryptContribution ::
  "'c fhe \<Rightarrow> uint256 \<Rightarrow> bytes \<Rightarrow> bytes \<Rightarrow> 'c state \<Rightarrow> 'c outcome" where
  "decryptContribution env requestId cleartexts proof s =
     (let updateId = requestToUpdateId s requestId in
      if updateId = 0 then Revert UnknownRequest s
      else
        case FHE_checkSignatures env requestId cleartexts proof s of
          Some e \<Rightarrow> Revert e s
        | None \<Rightarrow>
            (case decodeUint32Array env cleartexts of
               None \<Rightarrow> Revert DecodeError s
             | Some results \<Rightarrow>
                 (case results of
                    [] \<Rightarrow> Revert Panic s
                  | r0 # _ \<Rightarrow>
                      let contribution = decryptedContributions s updateId;
                          s1 = s\<lparr> decryptedContributions := (decryptedContributions s)
                                  (updateId := contribution\<lparr> shapleyValue := r0,
                                                               isRevealed := True \<rparr>) \<rparr>;
                          fresh = (isInitialized env (encryptedContributionTotals s1 updateId)
                                     = False);
                          s2 = (if fresh
                                then s1\<lparr> encryptedContributionTotals :=
                                           (encryptedContributionTotals s1)
                                             (updateId := asEuint32 env 0),
                                         participantList := participantList s1 @ [updateId] \<rparr>
                                else s1);
                          transient = (if fresh then {asEuint32 env 0} else {})
                                        \<union> {asEuint32 env r0}
                      in case FHE_add env transient s2
                                (encryptedContributionTotals s2 updateId) (asEuint32 env r0) of
                           None \<Rightarrow> Revert AccessDenied s2
                         | Some newTotal \<Rightarrow>
                             Success
                               (s2\<lparr> encryptedContributionTotals :=
                                      (encryptedContributionTotals s2)(updateId := newTotal) \<rparr>)
                               [Emit (ContributionDecrypted updateId)] [])))"

text \<open>\<^verbatim>\<open>getDecryptedContribution\<close> and \<^verbatim>\<open>getEncryptedContributionTotal\<close>, the views.\<close>

definition getDecryptedContribution :: "'c state \<Rightarrow> uint256 \<Rightarrow> uint256 \<times> uint32 \<times> bool" where
  "getDecryptedContribution s updateId =
     (let c = decryptedContributions s updateId
      in (participantId c, shapleyValue c, isRevealed c))"

definition getEncryptedContributionTotal :: "'c state \<Rightarrow> uint256 \<Rightarrow> 'c" where
  "getEncryptedContributionTotal s updateId = encryptedContributionTotals s updateId"

text \<open>\<^verbatim>\<open>requestContributionTotalDecryption\<close>.\<close>

definition requestContributionTotalDecryption ::
  "'c fhe \<Rightarrow> uint256 \<Rightarrow> 'c state \<Rightarrow> 'c outcome" where
  "requestContributionTotalDecryption env updateId s =
     (let total = encryptedContributionTotals s updateId in
      if \<not> isInitialized env total then Revert NotFound s
      else
        let ciphertexts = [total] in
        case FHE_requestDecryption ciphertexts {} s of
          Inl (e, s') \<Rightarrow> Revert e s'
        | Inr (reqId, s1) \<Rightarrow>
            let s2 = s1\<lparr> requestToUpdateId := (requestToUpdateId s1)(reqId := updateId) \<rparr>
            in Success s2
                 [RequestDecryption ciphertexts DecryptTotalContributionSelector reqId] [])"

text \<open>
  \<^verbatim>\<open>decryptTotalContribution\<close>, the callback of the total lane. It reads the request
  map into a local that is never used, checks the proof, decodes one scalar and stops.
\<close>

definition decryptTotalContribution ::
  "'c fhe \<Rightarrow> uint256 \<Rightarrow> bytes \<Rightarrow> bytes \<Rightarrow> 'c state \<Rightarrow> 'c outcome" where
  "decryptTotalContribution env requestId cleartexts proof s =
     (let updateId = requestToUpdateId s requestId in
      case FHE_checkSignatures env requestId cleartexts proof s of
        Some e \<Rightarrow> Revert e s
      | None \<Rightarrow>
          (case decodeUint32 env cleartexts of
             None \<Rightarrow> Revert DecodeError s
           | Some totalValue \<Rightarrow> Success s [] []))"

subsection \<open>Grants of access by other accounts\<close>

text \<open>
  An account that holds access to a handle can grant the contract lasting access to it
  through the access-control list. Nobody holds access to the handle of a never-written
  slot, so only initialized handles can be granted.
\<close>

definition aclAllow :: "'c fhe \<Rightarrow> 'c \<Rightarrow> 'c state \<Rightarrow> 'c outcome" where
  "aclAllow env h s =
     (if \<not> isInitialized env h then Revert AccessDenied s
      else Success (s\<lparr> aclAllowed := insert h (aclAllowed s) \<rparr>) [] [])"

subsection \<open>Transactions\<close>

text \<open>
  A transaction: a call of one public function with its arguments (a submission also
  carries the block timestamp), or a grant of access to the contract. Every call is a
  transaction of its own.
\<close>

datatype 'c call =
    SubmitEncryptedUpdate uint256 'c 'c
  | RequestUpdateDecryption uint256
  | DecryptContribution uint256 bytes bytes
  | RequestContributionTotalDecryption uint256
  | DecryptTotalContribution uint256 bytes bytes
  | AclAllow 'c

fun dispatch :: "'c fhe \<Rightarrow> 'c call \<Rightarrow> 'c state \<Rightarrow> 'c outcome" where
  "dispatch env (SubmitEncryptedUpdate now w m) s = submitEncryptedUpdate now w m s"
| "dispatch env (RequestUpdateDecryption updateId) s = requestUpdateDecryption updateId s"
| "dispatch env (DecryptContribution requestId cleartexts proof) s =
     decryptContribution env requestId cleartexts proof s"
| "dispatch env (RequestContributionTotalDecryption updateId) s =
     requestContributionTotalDecryption env updateId s"
| "dispatch env (DecryptTotalContribution requestId cleartexts proof) s =
     decryptTotalContribution env requestId cleartexts proof s"
| "dispatch env (AclAllow h) s = aclAllow env h s"

text \<open>
  What the caller of a transaction sees, and the storage after it. A revert discards
  whatever the body wrote and restores the storage the transaction started from.
\<close>

datatype 'c receipt =
    Reverted error
  | Succeeded "'c effect list" "uint256 list"

definition transact :: "'c fhe \<Rightarrow> 'c call \<Rightarrow> 'c state \<Rightarrow> 'c receipt \<times> 'c state" where
  "transact env c s =
     (case dispatch env c s of
        Revert e _ \<Rightarrow> (Reverted e, s)
      | Success s' effects returned \<Rightarrow> (Succeeded effects returned, s'))"

text \<open>Running a sequence of transactions: the receipts in order, and the final storage.\<close>

fun run :: "'c fhe \<Rightarrow> 'c call list \<Rightarrow> 'c state \<Rightarrow> 'c receipt list \<times> 'c state" where
  "run env [] s = ([], s)"
| "run env (c # cs) s =
     (let (r, s1) = transact env c s; (rs, s2) = run env cs s1 in (r # rs, s2))"

text \<open>The states the contract can be in: the deployed one, and any state a transaction
  leads to from a reachable one.\<close>

inductive reachable :: "'c fhe \<Rightarrow> 'c state \<Rightarrow> bool" for env :: "'c fhe" where
  reachable_initial: "reachable env (initial_state env)"
| reachable_transact: "reachable env s \<Longrightarrow> reachable env (snd (transact env c s))"

text \<open>
  The request ids the library has handed out during a run: those of the decryption
  requests sent by the transactions that succeeded.
\<close>

fun effect_requests :: "'c effect \<Rightarrow> uint256 set" where
  "effect_requests (Emit _) = {}"
| "effect_requests (RequestDecryption _ _ reqId) = {reqId}"

fun receipt_requests :: "'c receipt \<Rightarrow> uint256 set" where
  "receipt_requests (Reverted _) = {}"
| "receipt_requests (Succeeded effects _) = (\<Union>e \<in> set effects. effect_requests e)"

definition issued :: "'c fhe \<Rightarrow> 'c call list \<Rightarrow> 'c state \<Rightarrow> uint256 set" where
  "issued env cs s = (\<Union>r \<in> set (fst (run env cs s)). receipt_requests r)"

text \<open>An identifier that a submission has allocated: one of \<open>1, ..., updateCount\<close>.\<close>

definition submitted :: "'c state \<Rightarrow> uint256 \<Rightarrow> bool" where
  "submitted s i \<longleftrightarrow> i \<noteq> 0 \<and> i \<le> updateCount s"

text \<open>A sequence of submissions, each with its block timestamp and its two handles.\<close>

definition submit_calls :: "(uint256 \<times> 'c \<times> 'c) list \<Rightarrow> 'c call list" where
  "submit_calls args = map (\<lambda>(now, w, m). SubmitEncryptedUpdate now w m) args"

text \<open>
  The facts about a state that every transaction preserves: identifiers that were never
  allocated hold the zero value in the update ledger and in the totals; allocated ones
  carry their own identifier in both ledgers; the request map points at allocated
  identifiers only; the contract holds lasting access to initialized handles only; the
  request map and the handles saved by the library are written together; and handles are
  saved below the library's counter only.
\<close>

definition consistent :: "'c fhe \<Rightarrow> 'c state \<Rightarrow> bool" where
  "consistent env s \<longleftrightarrow>
     (\<forall>i. \<not> submitted s i \<longrightarrow>
        encryptedWeights (encryptedUpdates s i) = zeroHandle env \<and>
        encryptedMetrics (encryptedUpdates s i) = zeroHandle env \<and>
        encryptedContributionTotals s i = zeroHandle env) \<and>
     (\<forall>i. submitted s i \<longrightarrow>
        id' (encryptedUpdates s i) = i \<and> participantId (decryptedContributions s i) = i) \<and>
     (\<forall>r. requestToUpdateId s r \<noteq> 0 \<longrightarrow> submitted s (requestToUpdateId s r)) \<and>
     (\<forall>h \<in> aclAllowed s. isInitialized env h) \<and>
     (\<forall>r. (requestedHandles s r \<noteq> []) = (requestToUpdateId s r \<noteq> 0)) \<and>
     (\<forall>r. requestedHandles s r \<noteq> [] \<longrightarrow> r < counterRequest s)"

subsection \<open>A test double for the library\<close>

text \<open>
  A concrete instance of the library parameters, used to run the contract on concrete
  inputs. A handle records how it was computed (as the library's handles are hashes of
  the operation and its operands), and the unset handle is the zero slot. The signatures
  of a proof are valid exactly when the proof is \<open>test_sign handles cleartexts\<close>. The
  decoders read 32-byte big-endian ABI words: a scalar is one word below \<open>2 ^ 32\<close>; an
  array is the offset of its length word, the length, then one word per element.
\<close>

datatype tagged = Unset | Trivial uint32 | Add tagged tagged

fun plain :: "tagged \<Rightarrow> uint32" where
  "plain Unset = 0"
| "plain (Trivial v) = v"
| "plain (Add a b) = plain a + plain b"

definition word_at :: "bytes \<Rightarrow> nat \<Rightarrow> uint256 option" where
  "word_at bs off =
     (if off + 32 \<le> length bs
      then Some (foldl (\<lambda>acc b. acc * 256 + ucast b) 0 (take 32 (drop off bs)))
      else None)"

definition uint32_at :: "bytes \<Rightarrow> nat \<Rightarrow> uint32 option" where
  "uint32_at bs off =
     (case word_at bs off of
        None \<Rightarrow> None
      | Some w \<Rightarrow> if w < 2 ^ 32 then Some (ucast w) else None)"

definition abi_decode_uint32 :: "bytes \<Rightarrow> uint32 option" where
  "abi_decode_uint32 bs = uint32_at bs 0"

definition abi_decode_uint32_array :: "bytes \<Rightarrow> uint32 list option" where
  "abi_decode_uint32_array bs =
     (case word_at bs 0 of
        None \<Rightarrow> None
      | Some off \<Rightarrow>
          (case word_at bs (unat off) of
             None \<Rightarrow> None
           | Some len \<Rightarrow>
               those (map (\<lambda>i. uint32_at bs (unat off + 32 + 32 * i)) [0..<unat len])))"

text \<open>The ABI word of a value below 256.\<close>

definition abi_word :: "8 word \<Rightarrow> bytes" where
  "abi_word b = replicate 31 0 @ [b]"

definition test_sign :: "tagged list \<Rightarrow> bytes \<Rightarrow> bytes" where
  "test_sign handles cleartexts = map (\<lambda>h. ucast (plain h)) handles @ cleartexts"

definition test_env :: "tagged fhe" where
  "test_env =
     \<lparr> zeroHandle = Unset,
       isInitialized = (\<lambda>h. h \<noteq> Unset),
       asEuint32 = Trivial,
       fhe_add = Add,
       verifySignatures = (\<lambda>handles cleartexts proof. proof = test_sign handles cleartexts),
       decodeUint32Array = abi_decode_uint32_array,
       decodeUint32 = abi_decode_uint32 \<rparr>"

text \<open>
  A concrete history. Two updates are submitted, and the contract is granted access to
  the two handles of the first. A decryption request for id 1 gets request id 0, and the
  callback reveals the value 30, which makes \<open>example_total\<close> the total of id 1. Then the
  contract is granted access to that total, and a total request for id 1 gets request
  id 1. \<open>example_cleartexts\<close> is the ABI encoding of the array \<open>[30]\<close>, and
  \<open>example_scalar\<close> that of the scalar 30.
\<close>

definition example_cleartexts :: bytes where
  "example_cleartexts = abi_word 32 @ abi_word 1 @ abi_word 30"

definition example_scalar :: bytes where
  "example_scalar = abi_word 30"

definition example_proof :: bytes where
  "example_proof = test_sign [Trivial 5, Trivial 6] example_cleartexts"

definition example_total :: tagged where
  "example_total = Add (Trivial 0) (Trivial 30)"

definition example_submitted :: "tagged state" where
  "example_submitted =
     snd (run test_env
            [SubmitEncryptedUpdate 1000 (Trivial 5) (Trivial 6),
             SubmitEncryptedUpdate 1001 (Trivial 7) (Trivial 8),
             AclAllow (Trivial 5), AclAllow (Trivial 6)]
            (initial_state test_env))"

definition example_requested :: "tagged state" where
  "example_requested = snd (transact test_env (RequestUpdateDecryption 1) example_submitted)"

definition example_revealed :: "tagged state" where
  "example_revealed =
     snd (transact test_env (DecryptContribution 0 example_cleartexts example_proof)
            example_requested)"

definition example_granted :: "tagged state" where
  "example_granted = snd (transact test_env (AclAllow example_total) example_revealed)"

definition example_total_requested :: "tagged state" where
  "example_total_requested =
     snd (transact test_env (RequestContributionTotalDecryption 1) example_granted)"

section \<open>Properties\<close>

subsection \<open>Auxiliary facts\<close>

lemmas library_defs =
  isAllowed_def FHE_requestDecryption_def FHE_checkSignatures_def FHE_add_def

lemmas function_defs =
  submitEncryptedUpdate_def requestUpdateDecryption_def decryptContribution_def
  requestContributionTotalDecryption_def decryptTotalContribution_def aclAllow_def

text \<open>What a successful \<open>decryptContribution\<close> needed, and what it wrote.\<close>

lemma decryptContribution_SuccessD:
  assumes "decryptContribution env requestId cleartexts proof s = Success s' effects returned"
  shows "\<exists>v rest. requestToUpdateId s requestId \<noteq> 0 \<and>
           requestedHandles s requestId \<noteq> [] \<and>
           verifySignatures env (requestedHandles s requestId) cleartexts proof \<and>
           decodeUint32Array env cleartexts = Some (v # rest) \<and>
           (isInitialized env (encryptedContributionTotals s (requestToUpdateId s requestId)) \<longrightarrow>
              isAllowed {asEuint32 env v} s
                (encryptedContributionTotals s (requestToUpdateId s requestId))) \<and>
           effects = [Emit (ContributionDecrypted (requestToUpdateId s requestId))] \<and>
           returned = [] \<and>
           s' = s\<lparr> decryptedContributions := (decryptedContributions s)
                     (requestToUpdateId s requestId :=
                        (decryptedContributions s (requestToUpdateId s requestId))
                          \<lparr> shapleyValue := v, isRevealed := True \<rparr>),
                   encryptedContributionTotals := (encryptedContributionTotals s)
                     (requestToUpdateId s requestId :=
                        fhe_add env
                          (if isInitialized env
                                (encryptedContributionTotals s (requestToUpdateId s requestId))
                           then encryptedContributionTotals s (requestToUpdateId s requestId)
                           else asEuint32 env 0)
                          (asEuint32 env v)),
                   participantList :=
                     (if isInitialized env
                           (encryptedContributionTotals s (requestToUpdateId s requestId))
                      then participantList s
                      else participantList s @ [requestToUpdateId s requestId]) \<rparr>"
  using assms
  by (auto simp: decryptContribution_def library_defs Let_def
        split: if_splits option.splits list.splits)

lemma decryptContribution_accept:
  assumes "requestToUpdateId s requestId = X" "X \<noteq> 0"
    and "requestedHandles s requestId \<noteq> []"
    and "verifySignatures env (requestedHandles s requestId) cleartexts proof"
    and "decodeUint32Array env cleartexts = Some (v # rest)"
    and "isInitialized env (encryptedContributionTotals s X) \<Longrightarrow>
           isAllowed {asEuint32 env v} s (encryptedContributionTotals s X)"
  shows "decryptContribution env requestId cleartexts proof s =
           Success
             (s\<lparr> decryptedContributions := (decryptedContributions s)
                    (X := (decryptedContributions s X)\<lparr> shapleyValue := v, isRevealed := True \<rparr>),
                 encryptedContributionTotals := (encryptedContributionTotals s)
                    (X := fhe_add env
                            (if isInitialized env (encryptedContributionTotals s X)
                             then encryptedContributionTotals s X else asEuint32 env 0)
                            (asEuint32 env v)),
                 participantList :=
                    (if isInitialized env (encryptedContributionTotals s X)
                     then participantList s else participantList s @ [X]) \<rparr>)
             [Emit (ContributionDecrypted X)] []"
  using assms
  by (auto simp: decryptContribution_def library_defs Let_def)

text \<open>When the access-control list refuses the stored total, the callback reverts.\<close>

lemma decryptContribution_denied:
  assumes "requestToUpdateId s requestId = X" "X \<noteq> 0"
    and "requestedHandles s requestId \<noteq> []"
    and "verifySignatures env (requestedHandles s requestId) cleartexts proof"
    and "decodeUint32Array env cleartexts = Some (v # rest)"
    and "isInitialized env (encryptedContributionTotals s X)"
    and "\<not> isAllowed {asEuint32 env v} s (encryptedContributionTotals s X)"
  shows "decryptContribution env requestId cleartexts proof s =
           Revert AccessDenied
             (s\<lparr> decryptedContributions := (decryptedContributions s)
                    (X := (decryptedContributions s X)
                            \<lparr> shapleyValue := v, isRevealed := True \<rparr>) \<rparr>)"
  using assms
  by (auto simp: decryptContribution_def library_defs Let_def)

lemma isAllowed_empty: "isAllowed {} s = (\<lambda>h. h \<in> aclAllowed s)"
  by (simp add: fun_eq_iff isAllowed_def)

text \<open>What a request needs from the library, and what it writes.\<close>

lemma FHE_requestDecryption_Inr:
  assumes "list_all (\<lambda>h. h \<in> aclAllowed s) hs"
    and "requestedHandles s (counterRequest s) = []"
    and "counterRequest s \<noteq> - 1"
  shows "FHE_requestDecryption hs {} s =
           Inr (counterRequest s,
                s\<lparr> requestedHandles := (requestedHandles s)(counterRequest s := hs),
                   counterRequest := counterRequest s + 1 \<rparr>)"
  using assms by (simp add: FHE_requestDecryption_def isAllowed_empty Let_def)

lemma FHE_requestDecryption_InrD:
  assumes "FHE_requestDecryption hs {} s = Inr (reqId, s1)"
  shows "reqId = counterRequest s \<and> list_all (\<lambda>h. h \<in> aclAllowed s) hs \<and>
         requestedHandles s (counterRequest s) = [] \<and> counterRequest s \<noteq> - 1 \<and>
         s1 = s\<lparr> requestedHandles := (requestedHandles s)(counterRequest s := hs),
                 counterRequest := counterRequest s + 1 \<rparr>"
  using assms by (auto simp: FHE_requestDecryption_def isAllowed_empty Let_def split: if_splits)

text \<open>What a submission writes when the counter is below its maximum.\<close>

lemma submit_Success:
  "updateCount s \<noteq> - 1 \<Longrightarrow>
   submitEncryptedUpdate now w m s =
     Success
       (s\<lparr> updateCount := updateCount s + 1,
           encryptedUpdates := (encryptedUpdates s)
             (updateCount s + 1 := \<lparr> id' = updateCount s + 1, encryptedWeights = w,
                                       encryptedMetrics = m, timestamp = now \<rparr>),
           decryptedContributions := (decryptedContributions s)
             (updateCount s + 1 := \<lparr> participantId = updateCount s + 1, shapleyValue = 0,
                                       isRevealed = False \<rparr>) \<rparr>)
       [Emit (UpdateSubmitted (updateCount s + 1) now)] []"
  by (simp add: submitEncryptedUpdate_def Let_def)

lemma max_word_iff: "(x :: uint256) + 1 = 0 \<longleftrightarrow> x = - 1"
  by (simp add: eq_neg_iff_add_eq_0)

lemma unat_below_max:
  assumes "unat (x :: uint256) + Suc n < 2 ^ 256"
  shows "x \<noteq> - 1" and "unat (x + 1) = Suc (unat x)"
proof -
  show ne: "x \<noteq> - 1"
  proof
    assume "x = - 1"
    then have "unat x = 2 ^ 256 - 1"
      by (simp add: unsigned_minus_1_eq_mask mask_eq_exp_minus_1)
    with assms show False by simp
  qed
  then have "1 + x \<noteq> 0" by (metis max_word_wrap add.commute)
  then have "unat (1 + x) = Suc (unat x)" by (rule unatSuc)
  then show "unat (x + 1) = Suc (unat x)" by (simp add: add.commute)
qed

lemma unat_succ:
  assumes "(x :: uint256) \<noteq> - 1"
  shows "unat (x + 1) = Suc (unat x)"
proof -
  from assms have "1 + x \<noteq> 0" by (metis max_word_wrap add.commute)
  then have "unat (1 + x) = Suc (unat x)" by (rule unatSuc)
  then show ?thesis by (simp add: add.commute)
qed

lemma le_succ_iff:
  assumes "(x :: uint256) \<noteq> - 1"
  shows "i \<le> x + 1 \<longleftrightarrow> i \<le> x \<or> i = x + 1"
proof -
  have "i = x + 1 \<longleftrightarrow> unat i = Suc (unat x)"
    using unat_succ [OF assms] by (metis word_unat_eq_iff)
  then show ?thesis
    using unat_succ [OF assms] by (auto simp: word_le_nat_alt)
qed

lemma less_succ:
  assumes "(x :: uint256) \<noteq> - 1"
  shows "x < x + 1" and "r < x \<Longrightarrow> r < x + 1"
  using unat_succ [OF assms] by (auto simp: word_less_nat_alt)

lemma submitted_succ:
  assumes "updateCount s \<noteq> - 1" and "updateCount s' = updateCount s + 1"
  shows "submitted s' i \<longleftrightarrow> submitted s i \<or> i = updateCount s + 1"
  using assms le_succ_iff [OF assms(1), of i]
  by (auto simp: submitted_def max_word_iff)

text \<open>The consistency facts hold initially and every transaction preserves them, given
  that the handle of a never-written slot is uninitialized.\<close>

lemma consistent_initial: "consistent env (initial_state env)"
  by (simp add: consistent_def initial_state_def submitted_def)

lemma consistent_submit:
  assumes "consistent env s"
    and "submitEncryptedUpdate now w m s = Success s' effects returned"
  shows "consistent env s'"
proof -
  from assms(2) have ne: "updateCount s \<noteq> - 1"
    by (auto simp: submitEncryptedUpdate_def split: if_splits)
  from assms(2) submit_Success [OF ne, of now w m] have s':
    "s' = s\<lparr> updateCount := updateCount s + 1,
           encryptedUpdates := (encryptedUpdates s)
             (updateCount s + 1 := \<lparr> id' = updateCount s + 1, encryptedWeights = w,
                                       encryptedMetrics = m, timestamp = now \<rparr>),
           decryptedContributions := (decryptedContributions s)
             (updateCount s + 1 := \<lparr> participantId = updateCount s + 1, shapleyValue = 0,
                                       isRevealed = False \<rparr>) \<rparr>"
    by simp
  have sub: "submitted s' i \<longleftrightarrow> submitted s i \<or> i = updateCount s + 1" for i
    by (rule submitted_succ [OF ne]) (simp add: s')
  show ?thesis
    using assms(1) unfolding consistent_def sub
    by (simp add: s')
qed

lemma consistent_aclAllow:
  assumes "consistent env s"
    and "aclAllow env h s = Success s' effects returned"
  shows "consistent env s'"
  using assms
  by (auto simp: aclAllow_def consistent_def submitted_def split: if_splits)

lemma consistent_decryptTotal:
  assumes "consistent env s"
    and "decryptTotalContribution env r c p s = Success s' effects returned"
  shows "consistent env s'"
  using assms
  by (auto simp: decryptTotalContribution_def split: if_splits option.splits)

lemma consistent_decrypt:
  assumes "consistent env s"
    and "decryptContribution env r c p s = Success s' effects returned"
  shows "consistent env s'"
proof -
  define X where "X = requestToUpdateId s r"
  from decryptContribution_SuccessD [OF assms(2)] obtain v rest where
    x0: "X \<noteq> 0"
    and s': "s' = s\<lparr> decryptedContributions := (decryptedContributions s)
                     (X := (decryptedContributions s X)\<lparr> shapleyValue := v, isRevealed := True \<rparr>),
                   encryptedContributionTotals := (encryptedContributionTotals s)
                     (X := fhe_add env
                          (if isInitialized env (encryptedContributionTotals s X)
                           then encryptedContributionTotals s X
                           else asEuint32 env 0)
                          (asEuint32 env v)),
                   participantList :=
                     (if isInitialized env (encryptedContributionTotals s X)
                      then participantList s
                      else participantList s @ [X]) \<rparr>"
    unfolding X_def by blast
  from assms(1) x0 have subX: "submitted s X"
    by (simp add: consistent_def X_def)
  have sub: "submitted s' i = submitted s i" for i
    by (simp add: submitted_def s')
  show ?thesis
    using assms(1) subX unfolding consistent_def sub
    by (auto simp: s')
qed

lemma consistent_requestUpdate:
  assumes zero: "\<not> isInitialized env (zeroHandle env)"
    and "consistent env s"
    and "requestUpdateDecryption updateId s = Success s' effects returned"
  shows "consistent env s'"
proof -
  define hs where "hs = [encryptedWeights (encryptedUpdates s updateId),
                         encryptedMetrics (encryptedUpdates s updateId)]"
  from assms(3) obtain reqId s1 where
    lib: "FHE_requestDecryption hs {} s = Inr (reqId, s1)"
    and s': "s' = s1\<lparr> requestToUpdateId := (requestToUpdateId s1)(reqId := updateId) \<rparr>"
    by (auto simp: requestUpdateDecryption_def Let_def hs_def
          split: if_splits sum.splits prod.splits)
  from FHE_requestDecryption_InrD [OF lib] have
    r: "reqId = counterRequest s"
    and al: "list_all (\<lambda>h. h \<in> aclAllowed s) hs"
    and free: "requestedHandles s (counterRequest s) = []"
    and ne: "counterRequest s \<noteq> - 1"
    and s1: "s1 = s\<lparr> requestedHandles := (requestedHandles s)(counterRequest s := hs),
                     counterRequest := counterRequest s + 1 \<rparr>"
    by auto
  have "isInitialized env (encryptedWeights (encryptedUpdates s updateId))"
    using al assms(2) by (simp add: hs_def consistent_def)
  then have subU: "submitted s updateId"
    using assms(2) zero unfolding consistent_def by metis
  then have u0: "updateId \<noteq> 0" by (simp add: submitted_def)
  have sub: "submitted s' i = submitted s i" for i
    by (simp add: submitted_def s' s1)
  have hsne: "hs \<noteq> []" by (simp add: hs_def)
  show ?thesis
    using assms(2) subU u0 hsne less_succ [OF ne] unfolding consistent_def sub
    by (auto simp: s' s1 r)
qed

lemma consistent_requestTotal:
  assumes zero: "\<not> isInitialized env (zeroHandle env)"
    and "consistent env s"
    and "requestContributionTotalDecryption env updateId s = Success s' effects returned"
  shows "consistent env s'"
proof -
  define hs where "hs = [encryptedContributionTotals s updateId]"
  from assms(3) obtain reqId s1 where
    init: "isInitialized env (encryptedContributionTotals s updateId)"
    and lib: "FHE_requestDecryption hs {} s = Inr (reqId, s1)"
    and s': "s' = s1\<lparr> requestToUpdateId := (requestToUpdateId s1)(reqId := updateId) \<rparr>"
    by (auto simp: requestContributionTotalDecryption_def Let_def hs_def
          split: if_splits sum.splits prod.splits)
  from FHE_requestDecryption_InrD [OF lib] have
    r: "reqId = counterRequest s"
    and free: "requestedHandles s (counterRequest s) = []"
    and ne: "counterRequest s \<noteq> - 1"
    and s1: "s1 = s\<lparr> requestedHandles := (requestedHandles s)(counterRequest s := hs),
                     counterRequest := counterRequest s + 1 \<rparr>"
    by auto
  have subU: "submitted s updateId"
    using init assms(2) zero unfolding consistent_def by metis
  then have u0: "updateId \<noteq> 0" by (simp add: submitted_def)
  have sub: "submitted s' i = submitted s i" for i
    by (simp add: submitted_def s' s1)
  have hsne: "hs \<noteq> []" by (simp add: hs_def)
  show ?thesis
    using assms(2) subU u0 hsne less_succ [OF ne] unfolding consistent_def sub
    by (auto simp: s' s1 r)
qed

lemma consistent_transact:
  assumes zero: "\<not> isInitialized env (zeroHandle env)"
    and c: "consistent env s"
  shows "consistent env (snd (transact env c s))"
proof (cases "dispatch env c s")
  case (Revert e s0)
  then show ?thesis using c by (simp add: transact_def)
next
  case (Success s' effects returned)
  then have "consistent env s'"
    using c zero
    by (cases c)
       (auto intro: consistent_submit consistent_aclAllow consistent_decryptTotal
          consistent_decrypt consistent_requestUpdate consistent_requestTotal)
  with Success show ?thesis by (simp add: transact_def)
qed

lemma reachable_consistent:
  assumes zero: "\<not> isInitialized env (zeroHandle env)"
    and "reachable env s"
  shows "consistent env s"
  using assms(2)
  by (induction rule: reachable.induct)
     (simp_all add: consistent_initial consistent_transact [OF zero])


text \<open>The request map is only written together with the handles the library saves.\<close>

lemma reachable_tracker_handles:
  "reachable env s \<Longrightarrow> requestToUpdateId s r \<noteq> 0 \<Longrightarrow> requestedHandles s r \<noteq> []"
proof (induction arbitrary: r rule: reachable.induct)
  case reachable_initial
  then show ?case by (simp add: initial_state_def)
next
  case (reachable_transact s c)
  then show ?case
    by (cases c)
       (auto simp: transact_def function_defs FHE_requestDecryption_def FHE_checkSignatures_def
          FHE_add_def Let_def
          split: if_splits option.splits list.splits sum.splits prod.splits)
qed

lemma reachable_run:
  "reachable env s \<Longrightarrow> reachable env (snd (run env cs s))"
proof (induction cs arbitrary: s)
  case Nil
  then show ?case by simp
next
  case (Cons c cs)
  from Cons.prems have "reachable env (snd (transact env c s))"
    by (rule reachable_transact)
  from Cons.IH [OF this] show ?case
    by (simp add: split_beta)
qed

text \<open>A transaction changes the request map and the saved handles only at a request id
  it was handed.\<close>

lemma transact_tracker:
  "r \<notin> receipt_requests (fst (transact env c s)) \<Longrightarrow>
     requestToUpdateId (snd (transact env c s)) r = requestToUpdateId s r \<and>
     requestedHandles (snd (transact env c s)) r = requestedHandles s r"
  by (cases c)
     (auto simp: transact_def function_defs FHE_requestDecryption_def FHE_checkSignatures_def
        FHE_add_def Let_def
        split: if_splits option.splits list.splits sum.splits prod.splits)

lemma run_tracker:
  "r \<notin> issued env cs s \<Longrightarrow>
     requestToUpdateId (snd (run env cs s)) r = requestToUpdateId s r \<and>
     requestedHandles (snd (run env cs s)) r = requestedHandles s r"
proof (induction cs arbitrary: s)
  case Nil
  then show ?case by simp
next
  case (Cons c cs)
  from Cons.prems have a: "r \<notin> receipt_requests (fst (transact env c s))"
    and b: "r \<notin> issued env cs (snd (transact env c s))"
    by (auto simp: issued_def split_beta)
  from Cons.IH [OF b] transact_tracker [OF a] show ?case
    by (simp add: split_beta)
qed

text \<open>A run of submissions below the counter's maximum: every one succeeds and the
  identifiers follow the counter.\<close>

lemma run_submit_calls:
  "unat (updateCount s) + length args < 2 ^ 256 \<Longrightarrow>
     length (fst (run env (submit_calls args) s)) = length args \<and>
     updateCount (snd (run env (submit_calls args) s)) = updateCount s + of_nat (length args) \<and>
     (\<forall>i < length args.
        fst (run env (submit_calls args) s) ! i =
          Succeeded [Emit (UpdateSubmitted (updateCount s + of_nat (Suc i)) (fst (args ! i)))] [])"
proof (induction args arbitrary: s)
  case Nil
  then show ?case by (simp add: submit_calls_def)
next
  case (Cons a args)
  obtain now w m where a: "a = (now, w, m)" by (cases a)
  from Cons.prems have b: "unat (updateCount s) + Suc (length args) < 2 ^ 256" by simp
  note ne = unat_below_max [OF b]
  from submit_Success [OF ne(1), of now w m] obtain s1 where
    s1: "submitEncryptedUpdate now w m s =
           Success s1 [Emit (UpdateSubmitted (updateCount s + 1) now)] []"
    and c1: "updateCount s1 = updateCount s + 1"
    by simp
  have t: "transact env (SubmitEncryptedUpdate now w m) s =
             (Succeeded [Emit (UpdateSubmitted (updateCount s + 1) now)] [], s1)"
    by (simp add: transact_def s1)
  have "unat (updateCount s1) + length args < 2 ^ 256"
    using b ne(2) by (simp add: c1)
  note IH = Cons.IH [OF this]
  have r: "run env (submit_calls (a # args)) s =
             (Succeeded [Emit (UpdateSubmitted (updateCount s + 1) now)] []
                # fst (run env (submit_calls args) s1),
              snd (run env (submit_calls args) s1))"
    by (simp add: submit_calls_def a t split: prod.splits)
  show ?case
  proof (intro conjI allI impI)
    show "length (fst (run env (submit_calls (a # args)) s)) = length (a # args)"
      using IH by (simp add: r)
    show "updateCount (snd (run env (submit_calls (a # args)) s)) =
            updateCount s + of_nat (length (a # args))"
      using IH by (simp add: r c1 add.assoc)
  next
    fix i assume "i < length (a # args)"
    then show "fst (run env (submit_calls (a # args)) s) ! i =
        Succeeded [Emit (UpdateSubmitted (updateCount s + of_nat (Suc i))
                           (fst ((a # args) ! i)))] []"
      using IH unfolding r by (cases i) (simp_all add: a c1 add.assoc)
  qed
qed

subsection \<open>The concrete history, evaluated\<close>

lemma example_decode: "decodeUint32Array test_env example_cleartexts = Some [30]"
proof -
  have "abi_decode_uint32_array (abi_word 32 @ abi_word 1 @ abi_word 30) = Some [30]"
    by code_simp
  then show ?thesis by (simp add: test_env_def example_cleartexts_def)
qed


lemma example_submitted_eq:
  "example_submitted =
     \<lparr> updateCount = 2,
       encryptedUpdates = (encryptedUpdates (initial_state test_env))
         (1 := \<lparr> id' = 1, encryptedWeights = Trivial 5, encryptedMetrics = Trivial 6,
                 timestamp = 1000 \<rparr>,
          2 := \<lparr> id' = 2, encryptedWeights = Trivial 7, encryptedMetrics = Trivial 8,
                 timestamp = 1001 \<rparr>),
       decryptedContributions = (decryptedContributions (initial_state test_env))
         (1 := \<lparr> participantId = 1, shapleyValue = 0, isRevealed = False \<rparr>,
          2 := \<lparr> participantId = 2, shapleyValue = 0, isRevealed = False \<rparr>),
       encryptedContributionTotals = (\<lambda>_. Unset),
       participantList = [],
       requestToUpdateId = (\<lambda>_. 0),
       counterRequest = 0,
       requestedHandles = (\<lambda>_. []),
       aclAllowed = {Trivial 6, Trivial 5} \<rparr>"
  by (simp add: example_submitted_def transact_def submitEncryptedUpdate_def aclAllow_def
        initial_state_def test_env_def Let_def)

lemma example_requested_eq:
  "example_requested =
     example_submitted
       \<lparr> requestToUpdateId := (\<lambda>_. 0)(0 := 1),
         counterRequest := 1,
         requestedHandles := (\<lambda>_. [])(0 := [Trivial 5, Trivial 6]) \<rparr>"
  by (simp add: example_requested_def example_submitted_eq transact_def
        requestUpdateDecryption_def FHE_requestDecryption_def isAllowed_def initial_state_def
        Let_def)

lemma example_signed:
  "verifySignatures test_env (requestedHandles example_requested 0)
     example_cleartexts example_proof"
  by (simp add: example_requested_eq test_env_def example_proof_def)

lemma example_step:
  "decryptContribution test_env 0 example_cleartexts example_proof example_requested =
     Success example_revealed [Emit (ContributionDecrypted 1)] []"
proof -
  have r: "requestToUpdateId example_requested 0 = 1" "(1::uint256) \<noteq> 0"
    "requestedHandles example_requested 0 \<noteq> []"
    by (simp_all add: example_requested_eq)
  have t: "\<not> isInitialized test_env (encryptedContributionTotals example_requested 1)"
    by (simp add: example_requested_eq example_submitted_eq test_env_def)
  from decryptContribution_accept [OF r example_signed example_decode] t
  show ?thesis
    by (simp add: example_revealed_def transact_def)
qed

lemma example_revealed_eq:
  "example_revealed =
     example_requested
       \<lparr> decryptedContributions := (decryptedContributions example_requested)
            (1 := \<lparr> participantId = 1, shapleyValue = 30, isRevealed = True \<rparr>),
         encryptedContributionTotals := (\<lambda>_. Unset)(1 := example_total),
         participantList := [1] \<rparr>"
proof -
  have r: "requestToUpdateId example_requested 0 = 1" "(1::uint256) \<noteq> 0"
    "requestedHandles example_requested 0 \<noteq> []"
    by (simp_all add: example_requested_eq)
  have t: "\<not> isInitialized test_env (encryptedContributionTotals example_requested 1)"
    by (simp add: example_requested_eq example_submitted_eq test_env_def)
  from decryptContribution_accept [OF r example_signed example_decode] t example_step
  have "example_revealed =
     example_requested
       \<lparr> decryptedContributions := (decryptedContributions example_requested)
            (1 := (decryptedContributions example_requested 1)
                    \<lparr> shapleyValue := 30, isRevealed := True \<rparr>),
         encryptedContributionTotals := (encryptedContributionTotals example_requested)
            (1 := fhe_add test_env (asEuint32 test_env 0) (asEuint32 test_env 30)),
         participantList := participantList example_requested @ [1] \<rparr>"
    by simp
  then show ?thesis
    by (simp add: example_requested_eq example_submitted_eq initial_state_def
          example_total_def test_env_def)
qed




lemma example_zero: "\<not> isInitialized test_env (zeroHandle test_env)"
  by (simp add: test_env_def)

lemma example_reachable:
  "reachable test_env example_submitted"
  "reachable test_env example_requested"
  "reachable test_env example_revealed"
  "reachable test_env example_granted"
  "reachable test_env example_total_requested"
proof -
  show a: "reachable test_env example_submitted"
    unfolding example_submitted_def by (rule reachable_run [OF reachable_initial])
  then show b: "reachable test_env example_requested"
    unfolding example_requested_def by (rule reachable_transact)
  then show c: "reachable test_env example_revealed"
    unfolding example_revealed_def by (rule reachable_transact)
  then show d: "reachable test_env example_granted"
    unfolding example_granted_def by (rule reachable_transact)
  then show "reachable test_env example_total_requested"
    unfolding example_total_requested_def by (rule reachable_transact)
qed

lemma example_replay:
  "decryptContribution test_env 0 example_cleartexts example_proof example_revealed =
     Revert AccessDenied
       (example_revealed
          \<lparr> decryptedContributions := (decryptedContributions example_revealed)
               (1 := (decryptedContributions example_revealed 1)
                       \<lparr> shapleyValue := 30, isRevealed := True \<rparr>) \<rparr>)"
proof -
  have r: "requestToUpdateId example_revealed 0 = 1" "(1::uint256) \<noteq> 0"
    "requestedHandles example_revealed 0 \<noteq> []"
    by (simp_all add: example_revealed_eq example_requested_eq)
  have sig: "verifySignatures test_env (requestedHandles example_revealed 0)
               example_cleartexts example_proof"
    using example_signed by (simp add: example_revealed_eq)
  have i: "isInitialized test_env (encryptedContributionTotals example_revealed 1)"
    by (simp add: example_revealed_eq test_env_def example_total_def)
  have d: "\<not> isAllowed {asEuint32 test_env 30} example_revealed
               (encryptedContributionTotals example_revealed 1)"
    by (simp add: isAllowed_def example_revealed_eq example_requested_eq example_submitted_eq
          test_env_def example_total_def)
  from decryptContribution_denied [OF r sig example_decode i d] show ?thesis .
qed

subsection \<open>Order of the checks in the callback\<close>

text \<open>In any state, a proof with invalid signatures makes the callback revert before it
  writes: as an unknown request when the contract or the library does not know the request
  id, and as a failed verification otherwise.\<close>

lemma decryptContribution_forged_any_state:
  "\<not> verifySignatures env (requestedHandles s requestId) cleartexts proof \<Longrightarrow>
     decryptContribution env requestId cleartexts proof s =
       Revert (if requestToUpdateId s requestId = 0 \<or> requestedHandles s requestId = []
               then UnknownRequest else VerificationFailed) s"
  by (auto simp: decryptContribution_def FHE_checkSignatures_def Let_def)

text \<open>
  Claim C1, as amended. \<open>decryptContribution\<close> resolves the request id before it checks the
  proof, and both checks precede every write. In every reachable state, a call with a
  proof whose signatures are not valid for the request therefore fails with
  \<open>VerificationFailed\<close> when the request id resolves to a non-zero update id and with
  \<open>UnknownRequest\<close> when it does not; in both cases the storage at the revert, and after
  the transaction, is the storage before the call.
\<close>

theorem decryptContribution_forged_proof:
  assumes "reachable env s"
    and "\<not> verifySignatures env (requestedHandles s requestId) cleartexts proof"
  shows "decryptContribution env requestId cleartexts proof s =
       Revert (if requestToUpdateId s requestId = 0 then UnknownRequest
               else VerificationFailed) s \<and>
     transact env (DecryptContribution requestId cleartexts proof) s =
       (Reverted (if requestToUpdateId s requestId = 0 then UnknownRequest
                  else VerificationFailed), s)"
proof -
  have "requestToUpdateId s requestId \<noteq> 0 \<Longrightarrow> requestedHandles s requestId \<noteq> []"
    by (rule reachable_tracker_handles [OF assms(1)])
  with decryptContribution_forged_any_state [OF assms(2)] show ?thesis
    by (auto simp: transact_def)
qed

text \<open>A forged (empty) proof for the pending request 0 is rejected as \<open>VerificationFailed\<close>.\<close>

theorem decryptContribution_forged_proof_witness:
  "reachable test_env example_requested \<and>
   \<not> verifySignatures test_env (requestedHandles example_requested 0) example_cleartexts [] \<and>
   decryptContribution test_env 0 example_cleartexts [] example_requested =
     Revert VerificationFailed example_requested \<and>
   transact test_env (DecryptContribution 0 example_cleartexts []) example_requested =
     (Reverted VerificationFailed, example_requested)"
proof -
  have h: "\<not> verifySignatures test_env (requestedHandles example_requested 0)
               example_cleartexts []"
    by (simp add: example_requested_eq test_env_def test_sign_def)
  have r: "requestToUpdateId example_requested 0 = 1"
    by (simp add: example_requested_eq)
  from decryptContribution_forged_proof [OF example_reachable(2) h] h example_reachable(2)
  show ?thesis
    by (simp add: r)
qed

text \<open>
  The claim as stated fails: on a fresh contract the request id 7 is unknown, the empty
  proof has no valid signatures, and the call fails with \<open>UnknownRequest\<close>, not with
  \<open>VerificationFailed\<close>.
\<close>

theorem decryptContribution_unknown_forged_counterexample:
  "\<not> verifySignatures test_env (requestedHandles (initial_state test_env) 7)
       example_cleartexts [] \<and>
   decryptContribution test_env 7 example_cleartexts [] (initial_state test_env) =
     Revert UnknownRequest (initial_state test_env) \<and>
   fst (transact test_env (DecryptContribution 7 example_cleartexts []) (initial_state test_env))
     \<noteq> Reverted VerificationFailed"
  by (simp add: decryptContribution_def transact_def initial_state_def test_env_def
        test_sign_def example_cleartexts_def abi_word_def)

subsection \<open>Unknown request ids\<close>

text \<open>
  Claim C2. After any history of transactions on a fresh contract, a request id that no
  decryption request of the history returned, in either lane, is refused as an unknown
  request by both callbacks, whatever the cleartexts and the proof:
  \<open>decryptContribution\<close> by its own check of the request map, \<open>decryptTotalContribution\<close>
  by the library, which has no handles saved for the request id. The storage is left as it
  was.
\<close>

theorem callbacks_reject_unissued:
  assumes "r \<notin> issued env cs (initial_state env)"
  shows "decryptContribution env r cleartexts proof (snd (run env cs (initial_state env))) =
           Revert UnknownRequest (snd (run env cs (initial_state env))) \<and>
         decryptTotalContribution env r cleartexts proof (snd (run env cs (initial_state env))) =
           Revert UnknownRequest (snd (run env cs (initial_state env))) \<and>
         transact env (DecryptContribution r cleartexts proof)
             (snd (run env cs (initial_state env))) =
           (Reverted UnknownRequest, snd (run env cs (initial_state env))) \<and>
         transact env (DecryptTotalContribution r cleartexts proof)
             (snd (run env cs (initial_state env))) =
           (Reverted UnknownRequest, snd (run env cs (initial_state env)))"
proof -
  have "requestToUpdateId (snd (run env cs (initial_state env))) r = 0"
    and "requestedHandles (snd (run env cs (initial_state env))) r = []"
    using run_tracker [OF assms] by (simp_all add: initial_state_def)
  then show ?thesis
    by (simp add: decryptContribution_def decryptTotalContribution_def
          FHE_checkSignatures_def transact_def)
qed

text \<open>
  In the concrete history up to the first request only request id 0 was returned; both
  callbacks refuse request id 7, even with the proof the test verifier would accept for
  the handles of request 0.
\<close>

theorem callbacks_reject_unissued_witness:
  "issued test_env
     [SubmitEncryptedUpdate 1000 (Trivial 5) (Trivial 6),
      SubmitEncryptedUpdate 1001 (Trivial 7) (Trivial 8),
      AclAllow (Trivial 5), AclAllow (Trivial 6), RequestUpdateDecryption 1]
     (initial_state test_env) = {0} \<and>
   (7 :: uint256) \<notin> {0} \<and>
   transact test_env (DecryptContribution 7 example_cleartexts example_proof)
     (snd (run test_env
             [SubmitEncryptedUpdate 1000 (Trivial 5) (Trivial 6),
              SubmitEncryptedUpdate 1001 (Trivial 7) (Trivial 8),
              AclAllow (Trivial 5), AclAllow (Trivial 6), RequestUpdateDecryption 1]
             (initial_state test_env))) =
     (Reverted UnknownRequest,
      snd (run test_env
             [SubmitEncryptedUpdate 1000 (Trivial 5) (Trivial 6),
              SubmitEncryptedUpdate 1001 (Trivial 7) (Trivial 8),
              AclAllow (Trivial 5), AclAllow (Trivial 6), RequestUpdateDecryption 1]
             (initial_state test_env))) \<and>
   transact test_env (DecryptTotalContribution 7 example_scalar example_proof)
     (snd (run test_env
             [SubmitEncryptedUpdate 1000 (Trivial 5) (Trivial 6),
              SubmitEncryptedUpdate 1001 (Trivial 7) (Trivial 8),
              AclAllow (Trivial 5), AclAllow (Trivial 6), RequestUpdateDecryption 1]
             (initial_state test_env))) =
     (Reverted UnknownRequest,
      snd (run test_env
             [SubmitEncryptedUpdate 1000 (Trivial 5) (Trivial 6),
              SubmitEncryptedUpdate 1001 (Trivial 7) (Trivial 8),
              AclAllow (Trivial 5), AclAllow (Trivial 6), RequestUpdateDecryption 1]
             (initial_state test_env)))"
proof -
  define cs where
    "cs = [SubmitEncryptedUpdate 1000 (Trivial 5) (Trivial 6),
           SubmitEncryptedUpdate 1001 (Trivial 7) (Trivial 8),
           AclAllow (Trivial 5), AclAllow (Trivial 6), RequestUpdateDecryption 1]"
  have i: "issued test_env cs (initial_state test_env) = {0}"
    by (simp add: cs_def issued_def transact_def submitEncryptedUpdate_def aclAllow_def
          requestUpdateDecryption_def FHE_requestDecryption_def isAllowed_def
          initial_state_def test_env_def Let_def)
  then have n: "7 \<notin> issued test_env cs (initial_state test_env)"
    by simp
  from callbacks_reject_unissued [OF n] i show ?thesis
    unfolding cs_def by simp
qed

subsection \<open>Replay of an accepted callback\<close>

text \<open>
  When the stored total of the update is initialized, was not granted to the contract, and
  is not the handle of the encrypted value itself, the callback reverts in \<^verbatim>\<open>FHE.add\<close>
  after it has marked the record revealed.
\<close>

lemma decryptContribution_replay_denied:
  assumes first: "decryptContribution env requestId cleartexts proof s =
                    Success s1 effects returned"
    and init: "\<And>a b. isInitialized env (fhe_add env a b)"
    and distinct: "\<And>a b v. fhe_add env a b \<noteq> asEuint32 env v"
    and none: "encryptedContributionTotals s1 (requestToUpdateId s requestId) \<notin> aclAllowed s1"
  shows "requestToUpdateId s1 requestId = requestToUpdateId s requestId \<and>
         (\<exists>s2. decryptContribution env requestId cleartexts proof s1 = Revert AccessDenied s2) \<and>
         transact env (DecryptContribution requestId cleartexts proof) s1 =
           (Reverted AccessDenied, s1)"
proof -
  define X where "X = requestToUpdateId s requestId"
  from decryptContribution_SuccessD [OF first] obtain v rest where
    h: "X \<noteq> 0" "requestedHandles s requestId \<noteq> []"
       "verifySignatures env (requestedHandles s requestId) cleartexts proof"
       "decodeUint32Array env cleartexts = Some (v # rest)"
    and s1: "s1 = s\<lparr> decryptedContributions := (decryptedContributions s)
                     (X := (decryptedContributions s X)\<lparr> shapleyValue := v, isRevealed := True \<rparr>),
                   encryptedContributionTotals := (encryptedContributionTotals s)
                     (X := fhe_add env
                          (if isInitialized env (encryptedContributionTotals s X)
                           then encryptedContributionTotals s X
                           else asEuint32 env 0)
                          (asEuint32 env v)),
                   participantList :=
                     (if isInitialized env (encryptedContributionTotals s X)
                      then participantList s
                      else participantList s @ [X]) \<rparr>"
    unfolding X_def by blast
  have r1: "requestToUpdateId s1 requestId = X" by (simp add: s1 X_def)
  have h1: "requestedHandles s1 requestId \<noteq> []"
    "verifySignatures env (requestedHandles s1 requestId) cleartexts proof"
    using h by (simp_all add: s1)
  have i1: "isInitialized env (encryptedContributionTotals s1 X)"
    by (simp add: s1 init)
  have d1: "\<not> isAllowed {asEuint32 env v} s1 (encryptedContributionTotals s1 X)"
    using none distinct unfolding X_def [symmetric] by (simp add: isAllowed_def s1)
  from decryptContribution_denied [OF r1 h(1) h1 h(4) i1 d1] r1 show ?thesis
    by (simp add: transact_def X_def)
qed

text \<open>
  When another account has granted the contract lasting access to the stored total, the
  same callback delivered again succeeds and adds the value a second time: the
  accumulation onto an existing total is what the callback sets out to do.
\<close>

lemma decryptContribution_replay_granted:
  assumes first: "decryptContribution env requestId cleartexts proof s =
                    Success s1 effects returned"
    and init: "\<And>a b. isInitialized env (fhe_add env a b)"
    and granted: "encryptedContributionTotals s1 (requestToUpdateId s requestId) \<in> aclAllowed s1"
  shows "\<exists>v rest s2. decodeUint32Array env cleartexts = Some (v # rest) \<and>
           decryptContribution env requestId cleartexts proof s1 = Success s2 effects returned \<and>
           encryptedContributionTotals s2 (requestToUpdateId s requestId) =
             fhe_add env (encryptedContributionTotals s1 (requestToUpdateId s requestId))
               (asEuint32 env v)"
proof -
  define X where "X = requestToUpdateId s requestId"
  from decryptContribution_SuccessD [OF first] obtain v rest where
    h: "X \<noteq> 0" "requestedHandles s requestId \<noteq> []"
       "verifySignatures env (requestedHandles s requestId) cleartexts proof"
       "decodeUint32Array env cleartexts = Some (v # rest)"
    and e: "effects = [Emit (ContributionDecrypted X)]" "returned = []"
    and s1: "s1 = s\<lparr> decryptedContributions := (decryptedContributions s)
                     (X := (decryptedContributions s X)\<lparr> shapleyValue := v, isRevealed := True \<rparr>),
                   encryptedContributionTotals := (encryptedContributionTotals s)
                     (X := fhe_add env
                          (if isInitialized env (encryptedContributionTotals s X)
                           then encryptedContributionTotals s X
                           else asEuint32 env 0)
                          (asEuint32 env v)),
                   participantList :=
                     (if isInitialized env (encryptedContributionTotals s X)
                      then participantList s
                      else participantList s @ [X]) \<rparr>"
    unfolding X_def by blast
  have r1: "requestToUpdateId s1 requestId = X" by (simp add: s1 X_def)
  have h1: "requestedHandles s1 requestId \<noteq> []"
    "verifySignatures env (requestedHandles s1 requestId) cleartexts proof"
    using h by (simp_all add: s1)
  have i1: "isInitialized env (encryptedContributionTotals s1 X)"
    by (simp add: s1 init)
  have a1: "isAllowed {asEuint32 env v} s1 (encryptedContributionTotals s1 X)"
    using granted unfolding X_def [symmetric] by (simp add: isAllowed_def)
  from decryptContribution_accept [OF r1 h(1) h1 h(4) a1] i1 e h(4) show ?thesis
    unfolding X_def [symmetric] by auto
qed

text \<open>
  Claim C3. The request map is not consumed: after the callback for request 0 has revealed
  30 for id 1, request 0 still resolves to id 1. But the same callback delivered again, in
  a later transaction, does not succeed: the contract never granted itself access to the
  total it stored, so \<^verbatim>\<open>FHE.add\<close> is refused and the call reverts. The record and the
  total of id 1 stay as the first callback left them; nothing is added a second time.
\<close>

theorem decryptContribution_replay_reverts:
  "decryptContribution test_env 0 example_cleartexts example_proof example_requested =
     Success example_revealed [Emit (ContributionDecrypted 1)] [] \<and>
   requestToUpdateId example_revealed 0 = 1 \<and>
   getDecryptedContribution example_revealed 1 = (1, 30, True) \<and>
   encryptedContributionTotals example_revealed 1 = Add (Trivial 0) (Trivial 30) \<and>
   example_total \<notin> aclAllowed example_revealed \<and>
   transact test_env (DecryptContribution 0 example_cleartexts example_proof) example_revealed =
     (Reverted AccessDenied, example_revealed)"
proof -
  have "transact test_env (DecryptContribution 0 example_cleartexts example_proof)
          example_revealed = (Reverted AccessDenied, example_revealed)"
    by (simp add: transact_def example_replay)
  moreover have "requestToUpdateId example_revealed 0 = 1"
    "getDecryptedContribution example_revealed 1 = (1, 30, True)"
    "encryptedContributionTotals example_revealed 1 = Add (Trivial 0) (Trivial 30)"
    "example_total \<notin> aclAllowed example_revealed"
    by (simp_all add: example_revealed_eq example_requested_eq example_submitted_eq
          getDecryptedContribution_def example_total_def)
  ultimately show ?thesis using example_step by simp
qed

subsection \<open>One request map for both lanes\<close>




subsection \<open>Targets of the request map\<close>

text \<open>
  In a reachable state a decryption request for an identifier that was never submitted
  reverts: the update ledger holds the handle of a never-written slot there, which the
  access-control list allows to nobody, so the library refuses the request before the
  request map is written.
\<close>

lemma requestUpdateDecryption_unsubmitted:
  assumes zero: "\<not> isInitialized env (zeroHandle env)"
    and reach: "reachable env s"
    and "\<not> submitted s updateId"
  shows "\<exists>e. transact env (RequestUpdateDecryption updateId) s = (Reverted e, s)"
proof (cases "dispatch env (RequestUpdateDecryption updateId) s")
  case (Revert e s0)
  then show ?thesis by (simp add: transact_def)
next
  case (Success s' effects returned)
  then obtain reqId s1 where
    "FHE_requestDecryption [encryptedWeights (encryptedUpdates s updateId),
        encryptedMetrics (encryptedUpdates s updateId)] {} s = Inr (reqId, s1)"
    by (auto simp: requestUpdateDecryption_def Let_def
          split: if_splits sum.splits prod.splits)
  from FHE_requestDecryption_InrD [OF this]
  have "encryptedWeights (encryptedUpdates s updateId) \<in> aclAllowed s" by simp
  moreover have "encryptedWeights (encryptedUpdates s updateId) = zeroHandle env"
    using reachable_consistent [OF zero reach] assms(3) by (simp add: consistent_def)
  ultimately have "isInitialized env (zeroHandle env)"
    using reachable_consistent [OF zero reach] by (auto simp: consistent_def)
  with zero show ?thesis by simp
qed

text \<open>
  Claim C5. In every reachable state, every request id the tracker holds (one for which
  the library has saved handles, or which the request map sends to a non-zero identifier)
  maps to one target identifier, and that identifier was allocated by a submission: it is
  one of \<open>1, ..., updateCount\<close>, and the update ledger and the contribution ledger hold a
  record under it that carries this identifier. The handle of a never-written slot is
  assumed to be uninitialized.
\<close>

theorem tracked_requests_have_targets:
  assumes zero: "\<not> isInitialized env (zeroHandle env)"
    and reach: "reachable env s"
    and tracked: "requestedHandles s r \<noteq> [] \<or> requestToUpdateId s r \<noteq> 0"
  shows "requestToUpdateId s r \<noteq> 0 \<and>
         requestToUpdateId s r \<le> updateCount s \<and>
         id' (encryptedUpdates s (requestToUpdateId s r)) = requestToUpdateId s r \<and>
         participantId (decryptedContributions s (requestToUpdateId s r)) =
           requestToUpdateId s r"
proof -
  note c = reachable_consistent [OF zero reach]
  from c tracked have t: "requestToUpdateId s r \<noteq> 0"
    unfolding consistent_def by blast
  with c have "submitted s (requestToUpdateId s r)"
    unfolding consistent_def by blast
  with c t show ?thesis
    unfolding consistent_def by (simp add: submitted_def)
qed

text \<open>In the concrete history request 0 maps to id 1, one of the two submitted updates.\<close>

theorem tracked_requests_have_targets_witness:
  "\<not> isInitialized test_env (zeroHandle test_env) \<and>
   reachable test_env example_requested \<and>
   requestedHandles example_requested 0 = [Trivial 5, Trivial 6] \<and>
   requestToUpdateId example_requested 0 = 1 \<and>
   (1 :: uint256) \<le> updateCount example_requested \<and>
   id' (encryptedUpdates example_requested 1) = 1 \<and>
   participantId (decryptedContributions example_requested 1) = 1"
proof -
  have h: "requestedHandles example_requested 0 = [Trivial 5, Trivial 6]"
    and r: "requestToUpdateId example_requested 0 = 1"
    by (simp_all add: example_requested_eq)
  have tracked: "requestedHandles example_requested 0 \<noteq> [] \<or>
                 requestToUpdateId example_requested 0 \<noteq> 0"
    by (simp add: h)
  from tracked_requests_have_targets [OF example_zero example_reachable(2) tracked]
  show ?thesis
    using example_zero example_reachable(2) h by (simp add: r)
qed

subsection \<open>Identifiers of submissions\<close>

text \<open>
  Claim C6, as amended. Every successful \<open>submitEncryptedUpdate\<close> takes the next value of
  the one counter as the new identifier and publishes it in the \<open>UpdateSubmitted\<close> event;
  the function returns no value. Starting from a fresh contract, any sequence of fewer than
  \<open>2 ^ 256\<close> submissions succeeds throughout, and the identifier of the submission at
  position \<open>i\<close> (counting from 0) is \<open>i + 1\<close>: the identifiers are 1, 2, 3, ... in order.
\<close>

theorem submit_ids_sequential:
  assumes "length args < 2 ^ 256"
  shows "length (fst (run env (submit_calls args) (initial_state env))) = length args \<and>
     updateCount (snd (run env (submit_calls args) (initial_state env))) =
       of_nat (length args) \<and>
     (\<forall>i < length args.
        fst (run env (submit_calls args) (initial_state env)) ! i =
          Succeeded [Emit (UpdateSubmitted (of_nat (Suc i)) (fst (args ! i)))] [] \<and>
        unat (of_nat (Suc i) :: uint256) = Suc i)"
proof -
  have u: "updateCount (initial_state env) = 0" by (simp add: initial_state_def)
  have "unat (updateCount (initial_state env)) + length args < 2 ^ 256"
    using assms by (simp add: u)
  from run_submit_calls [OF this, of env]
  have main: "length (fst (run env (submit_calls args) (initial_state env))) = length args"
    "updateCount (snd (run env (submit_calls args) (initial_state env))) = of_nat (length args)"
    "\<And>i. i < length args \<Longrightarrow>
        fst (run env (submit_calls args) (initial_state env)) ! i =
          Succeeded [Emit (UpdateSubmitted (of_nat (Suc i)) (fst (args ! i)))] []"
    by (simp_all add: u)
  have "unat (of_nat (Suc i) :: uint256) = Suc i" if "i < length args" for i
  proof -
    from that assms have "Suc i < 2 ^ 256" by simp
    then show ?thesis by (simp only: unat_of_nat) simp
  qed
  with main show ?thesis by blast
qed

text \<open>Three submissions on a fresh contract get the identifiers 1, 2 and 3.\<close>

theorem submit_ids_sequential_witness:
  "length [(1000, Trivial 5, Trivial 6), (1001, Trivial 7, Trivial 8),
           (1002 :: uint256, Trivial 9, Trivial 10)] < 2 ^ 256 \<and>
   fst (run test_env
          (submit_calls [(1000, Trivial 5, Trivial 6), (1001, Trivial 7, Trivial 8),
                         (1002, Trivial 9, Trivial 10)])
          (initial_state test_env)) =
     [Succeeded [Emit (UpdateSubmitted 1 1000)] [],
      Succeeded [Emit (UpdateSubmitted 2 1001)] [],
      Succeeded [Emit (UpdateSubmitted 3 1002)] []]"
proof -
  define args where
    "args = [(1000, Trivial 5, Trivial 6), (1001, Trivial 7, Trivial 8),
             (1002 :: uint256, Trivial 9, Trivial 10)]"
  have l: "length args < 2 ^ 256" by (simp add: args_def)
  define rs where "rs = fst (run test_env (submit_calls args) (initial_state test_env))"
  from submit_ids_sequential [OF l, of test_env] have
    n: "length rs = 3"
    and e: "\<And>i. i < 3 \<Longrightarrow>
          rs ! i = Succeeded [Emit (UpdateSubmitted (of_nat (Suc i)) (fst (args ! i)))] []"
    by (simp_all add: rs_def [symmetric]) (simp_all add: args_def)
  from n obtain a b c where abc: "rs = [a, b, c]"
    by (auto simp: length_Suc_conv numeral_3_eq_3)
  from e [of 0] e [of 1] e [of 2] have
    "rs = [Succeeded [Emit (UpdateSubmitted 1 1000)] [],
           Succeeded [Emit (UpdateSubmitted 2 1001)] [],
           Succeeded [Emit (UpdateSubmitted 3 1002)] []]"
    by (simp add: abc args_def)
  with l show ?thesis by (simp add: rs_def args_def)
qed

text \<open>
  The claim as stated fails: the first submission on a fresh contract allocates
  identifier 1 and announces it in the event, but hands no value back to the caller.
\<close>

theorem submit_returns_nothing_counterexample:
  "fst (transact test_env (SubmitEncryptedUpdate 1000 (Trivial 5) (Trivial 6))
          (initial_state test_env)) =
     Succeeded [Emit (UpdateSubmitted 1 1000)] [] \<and>
   fst (transact test_env (SubmitEncryptedUpdate 1000 (Trivial 5) (Trivial 6))
          (initial_state test_env))
     \<noteq> Succeeded [Emit (UpdateSubmitted 1 1000)] [1]"
  by (simp add: transact_def submitEncryptedUpdate_def initial_state_def Let_def)

subsection \<open>Round trip\<close>

text \<open>
  Claim C7. From any reachable state whose two counters are below their maximum, a
  submission, then a decryption request for the identifier it allocated, then the callback
  for the request id that request returned, with a proof that is valid for the request
  and cleartexts that decode to \<open>[v]\<close>, all succeed, and afterwards
  \<open>getDecryptedContribution\<close> of that identifier returns the identifier, \<open>v\<close> and
  \<open>true\<close>. For the request to return an id the contract must hold access to the two
  submitted handles; the handle of a never-written slot is assumed to be uninitialized.
\<close>

theorem round_trip:
  assumes zero: "\<not> isInitialized env (zeroHandle env)"
    and reach: "reachable env s"
    and fresh: "updateCount s \<noteq> - 1"
    and room: "counterRequest s \<noteq> - 1"
    and access: "w \<in> aclAllowed s" "m \<in> aclAllowed s"
    and sig: "verifySignatures env [w, m] cleartexts proof"
    and dec: "decodeUint32Array env cleartexts = Some [v]"
  shows "\<exists>s3. run env
            [SubmitEncryptedUpdate now w m,
             RequestUpdateDecryption (updateCount s + 1),
             DecryptContribution (counterRequest s) cleartexts proof] s =
          ([Succeeded [Emit (UpdateSubmitted (updateCount s + 1) now)] [],
            Succeeded [RequestDecryption [w, m] DecryptContributionSelector (counterRequest s),
                       Emit (DecryptionRequested (updateCount s + 1))] [],
            Succeeded [Emit (ContributionDecrypted (updateCount s + 1))] []], s3) \<and>
          getDecryptedContribution s3 (updateCount s + 1) = (updateCount s + 1, v, True)"
proof -
  note c = reachable_consistent [OF zero reach]
  define n where "n = updateCount s + 1"
  define q where "q = counterRequest s"
  have n0: "n \<noteq> 0" using fresh by (simp add: n_def max_word_iff)
  have "\<not> n \<le> updateCount s"
    using less_succ(1) [OF fresh] by (simp add: n_def not_le)
  then have "\<not> submitted s n" by (simp add: submitted_def)
  with c have tn: "encryptedContributionTotals s n = zeroHandle env"
    by (simp add: consistent_def)
  from c have free: "requestedHandles s q = []"
    unfolding consistent_def q_def by (metis less_irrefl)
  define s1 where
    "s1 = s\<lparr> updateCount := n,
           encryptedUpdates := (encryptedUpdates s)
             (n := \<lparr> id' = n, encryptedWeights = w, encryptedMetrics = m, timestamp = now \<rparr>),
           decryptedContributions := (decryptedContributions s)
             (n := \<lparr> participantId = n, shapleyValue = 0, isRevealed = False \<rparr>) \<rparr>"
  have t1: "submitEncryptedUpdate now w m s = Success s1 [Emit (UpdateSubmitted n now)] []"
    using submit_Success [OF fresh, of now w m] by (simp add: s1_def n_def)
  define s2 where
    "s2 = s1\<lparr> requestedHandles := (requestedHandles s1)(q := [w, m]),
             counterRequest := q + 1,
             requestToUpdateId := (requestToUpdateId s1)(q := n) \<rparr>"
  have lib: "FHE_requestDecryption [w, m] {} s1 =
               Inr (q, s1\<lparr> requestedHandles := (requestedHandles s1)(q := [w, m]),
                          counterRequest := q + 1 \<rparr>)"
    using FHE_requestDecryption_Inr [of s1 "[w, m]"] access free room
    by (simp add: s1_def q_def)
  have u1: "encryptedWeights (encryptedUpdates s1 n) = w"
    "encryptedMetrics (encryptedUpdates s1 n) = m"
    "\<not> isRevealed (decryptedContributions s1 n)"
    by (simp_all add: s1_def)
  have t2: "requestUpdateDecryption n s1 =
              Success s2 [RequestDecryption [w, m] DecryptContributionSelector q,
                          Emit (DecryptionRequested n)] []"
    by (simp add: requestUpdateDecryption_def Let_def u1 lib s2_def)
  have r2: "requestToUpdateId s2 q = n"
    and h2: "requestedHandles s2 q \<noteq> []"
            "verifySignatures env (requestedHandles s2 q) cleartexts proof"
    using sig by (simp_all add: s2_def)
  have i2: "\<not> isInitialized env (encryptedContributionTotals s2 n)"
    using zero tn by (simp add: s2_def s1_def)
  from decryptContribution_accept [OF r2 n0 h2 dec] i2 obtain s3 where
    t3: "decryptContribution env q cleartexts proof s2 =
           Success s3 [Emit (ContributionDecrypted n)] []"
    and d3: "decryptedContributions s3 =
          (decryptedContributions s2)
            (n := (decryptedContributions s2 n)\<lparr> shapleyValue := v, isRevealed := True \<rparr>)"
    by simp
  have "run env [SubmitEncryptedUpdate now w m, RequestUpdateDecryption n,
                 DecryptContribution q cleartexts proof] s =
          ([Succeeded [Emit (UpdateSubmitted n now)] [],
            Succeeded [RequestDecryption [w, m] DecryptContributionSelector q,
                       Emit (DecryptionRequested n)] [],
            Succeeded [Emit (ContributionDecrypted n)] []], s3)"
    by (simp add: transact_def t1 t2 t3)
  moreover have "getDecryptedContribution s3 n = (n, v, True)"
    by (simp add: getDecryptedContribution_def d3 s2_def s1_def)
  ultimately show ?thesis unfolding n_def q_def by blast
qed

text \<open>
  Once the contract has been granted access to the two handles, the round trip for the
  value 30 on a fresh contract ends with \<open>(1, 30, true)\<close>.
\<close>

theorem round_trip_witness:
  "\<not> isInitialized test_env (zeroHandle test_env) \<and>
   reachable test_env
     (snd (run test_env [AclAllow (Trivial 5), AclAllow (Trivial 6)] (initial_state test_env))) \<and>
   aclAllowed
     (snd (run test_env [AclAllow (Trivial 5), AclAllow (Trivial 6)] (initial_state test_env)))
     = {Trivial 6, Trivial 5} \<and>
   verifySignatures test_env [Trivial 5, Trivial 6] example_cleartexts example_proof \<and>
   decodeUint32Array test_env example_cleartexts = Some [30] \<and>
   fst (run test_env
          [SubmitEncryptedUpdate 1000 (Trivial 5) (Trivial 6),
           RequestUpdateDecryption 1,
           DecryptContribution 0 example_cleartexts example_proof]
          (snd (run test_env [AclAllow (Trivial 5), AclAllow (Trivial 6)]
                  (initial_state test_env)))) =
     [Succeeded [Emit (UpdateSubmitted 1 1000)] [],
      Succeeded [RequestDecryption [Trivial 5, Trivial 6] DecryptContributionSelector 0,
                 Emit (DecryptionRequested 1)] [],
      Succeeded [Emit (ContributionDecrypted 1)] []] \<and>
   getDecryptedContribution
     (snd (run test_env
             [SubmitEncryptedUpdate 1000 (Trivial 5) (Trivial 6),
              RequestUpdateDecryption 1,
              DecryptContribution 0 example_cleartexts example_proof]
             (snd (run test_env [AclAllow (Trivial 5), AclAllow (Trivial 6)]
                     (initial_state test_env))))) 1 = (1, 30, True)"
proof -
  define s where
    "s = snd (run test_env [AclAllow (Trivial 5), AclAllow (Trivial 6)] (initial_state test_env))"
  have reach: "reachable test_env s"
    unfolding s_def by (rule reachable_run [OF reachable_initial])
  have s_eq: "s = (initial_state test_env)\<lparr> aclAllowed := {Trivial 6, Trivial 5} \<rparr>"
    by (simp add: s_def transact_def aclAllow_def initial_state_def test_env_def)
  have u: "updateCount s = 0" "counterRequest s = 0" "aclAllowed s = {Trivial 6, Trivial 5}"
    by (simp_all add: s_eq initial_state_def)
  have fresh: "updateCount s \<noteq> - 1" and room: "counterRequest s \<noteq> - 1"
    and access: "Trivial 5 \<in> aclAllowed s" "Trivial 6 \<in> aclAllowed s"
    by (simp_all add: u)
  have sig: "verifySignatures test_env [Trivial 5, Trivial 6] example_cleartexts example_proof"
    by (simp add: test_env_def example_proof_def)
  from round_trip [OF example_zero reach fresh room access sig example_decode, of 1000]
  obtain s3 where
    "run test_env
       [SubmitEncryptedUpdate 1000 (Trivial 5) (Trivial 6),
        RequestUpdateDecryption 1,
        DecryptContribution 0 example_cleartexts example_proof] s =
     ([Succeeded [Emit (UpdateSubmitted 1 1000)] [],
       Succeeded [RequestDecryption [Trivial 5, Trivial 6] DecryptContributionSelector 0,
                  Emit (DecryptionRequested 1)] [],
       Succeeded [Emit (ContributionDecrypted 1)] []], s3)"
    "getDecryptedContribution s3 1 = (1, 30, True)"
    unfolding u by auto
  then show ?thesis
    using example_zero reach u(3) sig example_decode unfolding s_def by simp
qed

subsection \<open>Requests for revealed records\<close>

text \<open>
  Claim C8. When the contribution record of an identifier is revealed,
  \<open>requestUpdateDecryption\<close> for it reverts with \<open>AlreadyRevealed\<close>; the storage at the
  revert and after the transaction is the storage before the call.
\<close>

theorem requestUpdateDecryption_revealed:
  "isRevealed (decryptedContributions s updateId) \<Longrightarrow>
     requestUpdateDecryption updateId s = Revert AlreadyRevealed s \<and>
     transact env (RequestUpdateDecryption updateId) s = (Reverted AlreadyRevealed, s)"
  by (simp add: requestUpdateDecryption_def transact_def)

text \<open>Identifier 1 is revealed in the concrete history; a new request for it is refused.\<close>

theorem requestUpdateDecryption_revealed_witness:
  "isRevealed (decryptedContributions example_revealed 1) \<and>
   requestUpdateDecryption 1 example_revealed = Revert AlreadyRevealed example_revealed \<and>
   transact test_env (RequestUpdateDecryption 1) example_revealed =
     (Reverted AlreadyRevealed, example_revealed)"
proof -
  have h: "isRevealed (decryptedContributions example_revealed 1)"
    by (simp add: example_revealed_eq)
  from requestUpdateDecryption_revealed [OF h, of test_env] h show ?thesis
    by simp
qed

subsection \<open>Frame of an accepted callback\<close>

text \<open>
  Claim C9. A successful \<open>decryptContribution\<close> whose request id resolves to \<open>X\<close> writes
  only \<open>X\<close>'s contribution record and \<open>X\<close>'s total. For every other identifier \<open>Y\<close> the
  record and the total are unchanged and \<open>Y\<close> occupies exactly the same positions of the
  participant list as before (the list is unchanged, or \<open>X\<close> is appended at its end). The
  decoded value is added into \<open>X\<close>'s total only; the counter, the update ledger, the
  request map, the library's requests and the contract's access are unchanged.
\<close>

theorem decryptContribution_frame:
  assumes "decryptContribution env requestId cleartexts proof s = Success s' effects returned"
  shows "\<exists>v rest. decodeUint32Array env cleartexts = Some (v # rest) \<and>
     (\<forall>Y. Y \<noteq> requestToUpdateId s requestId \<longrightarrow>
        decryptedContributions s' Y = decryptedContributions s Y \<and>
        encryptedContributionTotals s' Y = encryptedContributionTotals s Y \<and>
        (\<forall>i. (i < length (participantList s') \<and> participantList s' ! i = Y) =
              (i < length (participantList s) \<and> participantList s ! i = Y))) \<and>
     decryptedContributions s' (requestToUpdateId s requestId) =
       (decryptedContributions s (requestToUpdateId s requestId))
         \<lparr> shapleyValue := v, isRevealed := True \<rparr> \<and>
     encryptedContributionTotals s' (requestToUpdateId s requestId) =
       fhe_add env
         (if isInitialized env (encryptedContributionTotals s (requestToUpdateId s requestId))
          then encryptedContributionTotals s (requestToUpdateId s requestId)
          else asEuint32 env 0)
         (asEuint32 env v) \<and>
     participantList s' =
       (if isInitialized env (encryptedContributionTotals s (requestToUpdateId s requestId))
        then participantList s
        else participantList s @ [requestToUpdateId s requestId]) \<and>
     updateCount s' = updateCount s \<and>
     encryptedUpdates s' = encryptedUpdates s \<and>
     requestToUpdateId s' = requestToUpdateId s \<and>
     counterRequest s' = counterRequest s \<and>
     requestedHandles s' = requestedHandles s \<and>
     aclAllowed s' = aclAllowed s"
proof -
  define X where "X = requestToUpdateId s requestId"
  from decryptContribution_SuccessD [OF assms] obtain v rest where
    dec: "decodeUint32Array env cleartexts = Some (v # rest)"
    and s': "s' = s\<lparr> decryptedContributions := (decryptedContributions s)
                     (X := (decryptedContributions s X)\<lparr> shapleyValue := v, isRevealed := True \<rparr>),
                   encryptedContributionTotals := (encryptedContributionTotals s)
                     (X := fhe_add env
                          (if isInitialized env (encryptedContributionTotals s X)
                           then encryptedContributionTotals s X
                           else asEuint32 env 0)
                          (asEuint32 env v)),
                   participantList :=
                     (if isInitialized env (encryptedContributionTotals s X)
                      then participantList s
                      else participantList s @ [X]) \<rparr>"
    unfolding X_def by blast
  have pos: "(i < length (participantList s') \<and> participantList s' ! i = Y) =
             (i < length (participantList s) \<and> participantList s ! i = Y)"
    if "Y \<noteq> X" for Y i
    using that by (auto simp: s' nth_append less_Suc_eq)
  show ?thesis
    unfolding X_def [symmetric]
    using dec pos by (auto simp: s')
qed

text \<open>
  The reveal of 30 for id 1 in the concrete history leaves the record and the total of
  id 2 as they were, and appends id 1 to the participant list.
\<close>

theorem decryptContribution_frame_witness:
  "decryptContribution test_env 0 example_cleartexts example_proof example_requested =
     Success example_revealed [Emit (ContributionDecrypted 1)] [] \<and>
   (2 :: uint256) \<noteq> requestToUpdateId example_requested 0 \<and>
   decryptedContributions example_revealed 2 = decryptedContributions example_requested 2 \<and>
   encryptedContributionTotals example_revealed 2 =
     encryptedContributionTotals example_requested 2 \<and>
   participantList example_revealed = participantList example_requested @ [1] \<and>
   updateCount example_revealed = updateCount example_requested \<and>
   encryptedUpdates example_revealed = encryptedUpdates example_requested \<and>
   requestToUpdateId example_revealed = requestToUpdateId example_requested"
proof -
  have r: "requestToUpdateId example_requested 0 = 1"
    by (simp add: example_requested_eq)
  from decryptContribution_frame [OF example_step] have
    f: "\<And>Y. Y \<noteq> 1 \<Longrightarrow>
          decryptedContributions example_revealed Y = decryptedContributions example_requested Y \<and>
          encryptedContributionTotals example_revealed Y =
            encryptedContributionTotals example_requested Y \<and>
          (\<forall>i. (i < length (participantList example_revealed) \<and>
                 participantList example_revealed ! i = Y) =
                (i < length (participantList example_requested) \<and>
                 participantList example_requested ! i = Y))"
    and g: "updateCount example_revealed = updateCount example_requested"
       "encryptedUpdates example_revealed = encryptedUpdates example_requested"
       "requestToUpdateId example_revealed = requestToUpdateId example_requested"
    and p: "participantList example_revealed =
       (if isInitialized test_env (encryptedContributionTotals example_requested 1)
        then participantList example_requested
        else participantList example_requested @ [1])"
    unfolding r by blast+
  have t: "\<not> isInitialized test_env (encryptedContributionTotals example_requested 1)"
    by (simp add: example_requested_eq example_submitted_eq test_env_def)
  have "(2 :: uint256) \<noteq> 1" by simp
  from f [OF this] g p t example_step show ?thesis
    by (simp add: r)
qed

subsection \<open>Atomicity of failing calls\<close>

text \<open>
  The body of a call reverts before it has written anything, except in two places: the
  callback \<open>decryptContribution\<close> has marked the record revealed when the access-control
  list refuses the stored total, and the library has saved the handles of a request when
  its counter overflows.
\<close>

lemma dispatch_Revert_state:
  "dispatch env c s = Revert e s' \<Longrightarrow>
     s' = s \<or>
     (e = AccessDenied \<and> (\<exists>r cl p. c = DecryptContribution r cl p)) \<or>
     (e = Panic \<and> (\<exists>u. c = RequestUpdateDecryption u \<or>
                          c = RequestContributionTotalDecryption u))"
  by (cases c)
     (auto simp: function_defs library_defs Let_def
        split: if_splits option.splits list.splits sum.splits prod.splits)

text \<open>
  Claim C10. For every call to the contract and every input on which it fails, the
  failure is the outcome of that same call, and the storage after the transaction
  (counter, both ledgers, totals, participant list, request map, and the library's
  requests) is exactly the storage before it. Where the body had not written before it
  reverted, which is every failure except the two named above, the storage at the revert
  is already the storage at entry; in the two remaining cases the revert discards the
  writes.
\<close>

theorem failed_call_leaves_state:
  "(fst (transact env c s) = Reverted e \<longrightarrow>
      (\<exists>s'. dispatch env c s = Revert e s') \<and> snd (transact env c s) = s) \<and>
   (dispatch env c s = Revert e s' \<longrightarrow>
      transact env c s = (Reverted e, s) \<and>
      (s' = s \<or>
       (e = AccessDenied \<and> (\<exists>r cl p. c = DecryptContribution r cl p)) \<or>
       (e = Panic \<and> (\<exists>u. c = RequestUpdateDecryption u \<or>
                            c = RequestContributionTotalDecryption u))))"
proof (intro conjI impI)
  assume r: "fst (transact env c s) = Reverted e"
  then show "\<exists>s'. dispatch env c s = Revert e s'"
    by (cases "dispatch env c s") (simp_all add: transact_def)
  from r show "snd (transact env c s) = s"
    by (cases "dispatch env c s") (simp_all add: transact_def)
next
  assume d: "dispatch env c s = Revert e s'"
  then show "transact env c s = (Reverted e, s)"
    by (simp add: transact_def)
  from d show "s' = s \<or>
       (e = AccessDenied \<and> (\<exists>r cl p. c = DecryptContribution r cl p)) \<or>
       (e = Panic \<and> (\<exists>u. c = RequestUpdateDecryption u \<or>
                            c = RequestContributionTotalDecryption u))"
    by (rule dispatch_Revert_state)
qed

text \<open>
  Two failing calls in the concrete history. The callback for request 0 with an empty
  cleartext fails to decode, after the request lookup and the proof check have passed and
  before any write. The callback for request 0 delivered a second time is refused by the
  access-control list after the body has written the record; the transaction leaves the
  storage as it was.
\<close>

theorem failed_call_leaves_state_witness:
  "fst (transact test_env
          (DecryptContribution 0 [] (test_sign [Trivial 5, Trivial 6] [])) example_requested) =
     Reverted DecodeError \<and>
   dispatch test_env
     (DecryptContribution 0 [] (test_sign [Trivial 5, Trivial 6] [])) example_requested =
     Revert DecodeError example_requested \<and>
   snd (transact test_env
          (DecryptContribution 0 [] (test_sign [Trivial 5, Trivial 6] [])) example_requested) =
     example_requested \<and>
   fst (transact test_env
          (DecryptContribution 0 example_cleartexts example_proof) example_revealed) =
     Reverted AccessDenied \<and>
   snd (transact test_env
          (DecryptContribution 0 example_cleartexts example_proof) example_revealed) =
     example_revealed"
proof -
  have r: "requestToUpdateId example_requested 0 = 1"
    "requestedHandles example_requested 0 = [Trivial 5, Trivial 6]"
    by (simp_all add: example_requested_eq)
  have d: "decodeUint32Array test_env [] = None"
    by (simp add: test_env_def abi_decode_uint32_array_def word_at_def)
  have v: "verifySignatures test_env [Trivial 5, Trivial 6] []
             (test_sign [Trivial 5, Trivial 6] [])"
    by (simp add: test_env_def)
  have h1: "dispatch test_env
     (DecryptContribution 0 [] (test_sign [Trivial 5, Trivial 6] [])) example_requested =
     Revert DecodeError example_requested"
    by (simp add: decryptContribution_def FHE_checkSignatures_def r d v)
  have h2: "fst (transact test_env
          (DecryptContribution 0 example_cleartexts example_proof) example_revealed) =
     Reverted AccessDenied"
    by (simp add: transact_def example_replay)
  from failed_call_leaves_state
         [of test_env "DecryptContribution 0 [] (test_sign [Trivial 5, Trivial 6] [])"
             example_requested DecodeError example_requested]
       failed_call_leaves_state
         [of test_env "DecryptContribution 0 example_cleartexts example_proof"
             example_revealed AccessDenied example_revealed]
       h1 h2
  show ?thesis by simp
qed


end
